theory Spec2Isabelle
  imports Main
begin

section \<open>JavaScript values used by the widget studio\<close>

text \<open>
  Source texts, messages and prompts are JavaScript strings. They are modelled as
  \<^typ>\<open>string\<close>, one \<^typ>\<open>char\<close> per UTF-16 code unit below 256; texts with
  higher code units are outside the model.

  \<open>is_js_space\<close> is the white space that \<^verbatim>\<open>String.prototype.trim\<close> strips and
  that \<^verbatim>\<open>\s\<close> matches, restricted to that range: tab, line feed, vertical tab, form
  feed, carriage return, space and no-break space.
\<close>

definition is_js_space :: "char \<Rightarrow> bool" where
  "is_js_space c \<longleftrightarrow>
     c = CHR 0x09 \<or> c = CHR 0x0A \<or> c = CHR 0x0B \<or> c = CHR 0x0C \<or> c = CHR 0x0D
     \<or> c = CHR '' '' \<or> c = CHR 0xA0"

definition trim :: "string \<Rightarrow> string" where
  "trim s = rev (dropWhile is_js_space (rev (dropWhile is_js_space s)))"

text \<open>
  Truthiness of a string-or-null/undefined value: \<^verbatim>\<open>null\<close>, \<^verbatim>\<open>undefined\<close> (both
  \<open>None\<close>) and the empty string are falsy.
\<close>

definition truthy :: "string option \<Rightarrow> bool" where
  "truthy v \<longleftrightarrow> (case v of None \<Rightarrow> False | Some s \<Rightarrow> s \<noteq> [])"

text \<open>\<^verbatim>\<open>a || b\<close> for a string-or-null \<open>a\<close> and a string \<open>b\<close>.\<close>

definition or_else :: "string option \<Rightarrow> string \<Rightarrow> string" where
  "or_else v d = (case v of None \<Rightarrow> d | Some s \<Rightarrow> if s = [] then d else s)"

text \<open>
  A thrown value. \<open>ThrownError name message\<close> is an \<^verbatim>\<open>Error\<close> object (or any object
  with a string \<^verbatim>\<open>message\<close>), \<open>ThrownNullish\<close> is \<^verbatim>\<open>null\<close> or \<^verbatim>\<open>undefined\<close>,
  \<open>ThrownPrimitive s\<close> is any other primitive, \<open>s\<close> being its string conversion.
\<close>

datatype thrown = ThrownError string string | ThrownNullish | ThrownPrimitive string

text \<open>\<^verbatim>\<open>String(err)\<close>; for an \<^verbatim>\<open>Error\<close> this is \<^verbatim>\<open>Error.prototype.toString\<close>.\<close>

fun String_of :: "thrown \<Rightarrow> string" where
  "String_of (ThrownError name message) =
     (if name = [] then message else if message = [] then name else name @ '': '' @ message)"
| "String_of ThrownNullish = ''null''"
| "String_of (ThrownPrimitive s) = s"

text \<open>
  \<^verbatim>\<open>err.message || String(err)\<close>. Reading \<^verbatim>\<open>.message\<close> of \<^verbatim>\<open>null\<close> or
  \<^verbatim>\<open>undefined\<close> throws a \<^verbatim>\<open>TypeError\<close>: the result is \<open>None\<close>.
\<close>

fun errorMsg_of :: "thrown \<Rightarrow> string option" where
  "errorMsg_of (ThrownError name message) =
     Some (if message = [] then String_of (ThrownError name message) else message)"
| "errorMsg_of ThrownNullish = None"
| "errorMsg_of (ThrownPrimitive s) = Some s"

section \<open>The state of the WidgetStudio component\<close>

datatype role = User | Assistant | System

record message =
  role :: role
  content :: string

datatype dataSourceType = DsNone | DsApi | DsSql

datatype viewMode = Preview | Code | Config

text \<open>
  The value that the compiled source returns, by what the studio and React do with it: a
  falsy value (\<^verbatim>\<open>undefined\<close> when the source has no default export, \<^verbatim>\<open>null\<close>, \<^verbatim>\<open>0\<close>);
  a truthy value that React accepts as the type of an element (a function, a class, a tag
  name; \<open>'c\<close> is the type of these); a truthy value that it does not accept (a number, a
  plain object, an element).
\<close>

datatype 'c returned = Falsy | NotComponent | IsComponent 'c

text \<open>
  The preview component: the built-in placeholder of \<open>evaluateCode\<close>, or the value the
  compiled source returned.
\<close>

datatype 'c component = Placeholder | Dynamic "'c returned"

text \<open>The JSX test \<^verbatim>\<open>previewComponent ? ... : ...\<close>.\<close>

fun truthy_component :: "'c component option \<Rightarrow> bool" where
  "truthy_component None = False"
| "truthy_component (Some Placeholder) = True"
| "truthy_component (Some (Dynamic Falsy)) = False"
| "truthy_component (Some (Dynamic NotComponent)) = True"
| "truthy_component (Some (Dynamic (IsComponent f))) = True"

text \<open>Whether React accepts the value as the type of the element it is asked to mount.\<close>

fun valid_element_type :: "'c component option \<Rightarrow> bool" where
  "valid_element_type (Some Placeholder) = True"
| "valid_element_type (Some (Dynamic (IsComponent f))) = True"
| "valid_element_type (Some (Dynamic NotComponent)) = False"
| "valid_element_type (Some (Dynamic Falsy)) = False"
| "valid_element_type None = False"

text \<open>
  The \<^verbatim>\<open>useState\<close> variables of \<^verbatim>\<open>WidgetStudio\<close> that the modelled functions read or
  write. A value of this type is also what a closure created by one render sees: the
  functions below take the state their closure captured (\<open>c\<close>) apart from the state their
  updates are applied to (\<open>s\<close>).
\<close>

record 'c studio =
  messages :: "message list"
  prompt :: string
  isGenerating :: bool
  code :: string
  viewMode :: viewMode
  previewComponent :: "'c component option"
  previewError :: "string option"
  widgetName :: string
  widgetDescription :: string
  widgetCategory :: string
  widgetDomain :: string
  isExecutable :: bool
  dataSourceType :: dataSourceType
  dataSource :: string
  dataSourceSchema :: "string option"
  defaultW :: int
  defaultH :: int
  editingId :: "string option"

section \<open>Compile and evaluate: \<open>evaluateCode\<close>\<close>

text \<open>
  What the browser provides. \<open>window_Babel\<close> is \<open>None\<close> when the Babel script is not
  loaded; otherwise it is \<^verbatim>\<open>Babel.transform(code, ...).code\<close>, which returns the
  transpiled text or throws an \<^verbatim>\<open>Error\<close> (name and message). \<open>createComponent\<close> is
  \<^verbatim>\<open>new Function('React', 'useScript', 'Highcharts', executableCode)\<close> applied to the
  three capabilities: it returns a value or throws anything.
\<close>

record 'c env =
  window_Babel :: "(string \<Rightarrow> (string \<times> string) + string) option"
  createComponent :: "string \<Rightarrow> thrown + 'c returned"

text \<open>
  \<^verbatim>\<open>s.replace(re, ...)\<close> with a regular expression without the \<^verbatim>\<open>g\<close> flag: the
  leftmost match is replaced. \<open>m\<close> tries to match at the start of its argument and returns
  the replacement and the rest of the text after the match.
\<close>

fun strip_prefix :: "string \<Rightarrow> string \<Rightarrow> string option" where
  "strip_prefix [] s = Some s"
| "strip_prefix (p # ps) [] = None"
| "strip_prefix (p # ps) (c # cs) = (if p = c then strip_prefix ps cs else None)"

fun replace_first :: "(string \<Rightarrow> (string \<times> string) option) \<Rightarrow> string \<Rightarrow> string" where
  "replace_first m [] = []"
| "replace_first m (c # cs) =
     (case m (c # cs) of
        Some (rep, rest) \<Rightarrow> rep @ rest
      | None \<Rightarrow> c # replace_first m cs)"

text \<open>
  \<^verbatim>\<open>export\s+default\s+\<close> at the start of \<open>s\<close>: the text after it. Both \<^verbatim>\<open>\s+\<close> are
  followed by something that cannot start with white space, so the greedy match is the
  only one.
\<close>

definition match_export_default :: "string \<Rightarrow> string option" where
  "match_export_default s =
     (case strip_prefix ''export'' s of
        None \<Rightarrow> None
      | Some r1 \<Rightarrow>
          (let r2 = dropWhile is_js_space r1 in
           if r2 = r1 then None
           else (case strip_prefix ''default'' r2 of
                   None \<Rightarrow> None
                 | Some r3 \<Rightarrow>
                     (let r4 = dropWhile is_js_space r3 in
                      if r4 = r3 then None else Some r4))))"

text \<open>\<^verbatim>\<open>/export\s+default\s+(function|class|identifier)/\<close> replaced by \<^verbatim>\<open>'return $1'\<close>.\<close>

definition match_export_keyword :: "string \<Rightarrow> (string \<times> string) option" where
  "match_export_keyword s =
     (case match_export_default s of
        None \<Rightarrow> None
      | Some r \<Rightarrow>
          (case strip_prefix ''function'' r of
             Some rest \<Rightarrow> Some (''return function'', rest)
           | None \<Rightarrow>
               (case strip_prefix ''class'' r of
                  Some rest \<Rightarrow> Some (''return class'', rest)
                | None \<Rightarrow>
                    (case strip_prefix ''identifier'' r of
                       Some rest \<Rightarrow> Some (''return identifier'', rest)
                     | None \<Rightarrow> None))))"

text \<open>\<^verbatim>\<open>/export\s+default\s+/\<close> replaced by \<^verbatim>\<open>'return '\<close>.\<close>

definition match_export_any :: "string \<Rightarrow> (string \<times> string) option" where
  "match_export_any s =
     (case match_export_default s of None \<Rightarrow> None | Some r \<Rightarrow> Some (''return '', r))"

definition executableCode :: "string \<Rightarrow> string" where
  "executableCode transpiled =
     replace_first match_export_any (replace_first match_export_keyword transpiled)"

definition babel_missing :: string where
  "babel_missing = ''Babel compiler missing. Please ensure babel-standalone CDN is loaded.''"

text \<open>
  The body of the \<^verbatim>\<open>try\<close> block after \<^verbatim>\<open>setPreviewError(null)\<close>: the component it
  passes to \<^verbatim>\<open>setPreviewComponent\<close>, or the value it throws.
\<close>

definition try_evaluate :: "'c env \<Rightarrow> string \<Rightarrow> thrown + 'c component" where
  "try_evaluate env src =
     (case window_Babel env of
        None \<Rightarrow> Inl (ThrownError ''Error'' babel_missing)
      | Some transform \<Rightarrow>
          if src = [] \<or> trim src = [] then Inr Placeholder
          else (case transform src of
                  Inl (name, message) \<Rightarrow> Inl (ThrownError name message)
                | Inr transpiled \<Rightarrow>
                    (case createComponent env (executableCode transpiled) of
                       Inl err \<Rightarrow> Inl err
                     | Inr Component \<Rightarrow> Inr (Dynamic Component))))"

text \<open>
  The outcome of one run of \<open>evaluateCode\<close>: the state after its updates, the argument of
  the \<^verbatim>\<open>setTimeout(() => handleGenerate(errorMsg), 1000)\<close> it scheduled, if any, and
  whether an exception left the function.
\<close>

record 'c eval_result =
  er_state :: "'c studio"
  er_retry :: "string option"
  er_uncaught :: bool

text \<open>
  \<open>evaluateCode\<close> runs from the debounce timer of the effect on \<^verbatim>\<open>[code]\<close>. It reads
  \<^verbatim>\<open>code\<close>, \<^verbatim>\<open>previewError\<close> and \<^verbatim>\<open>isGenerating\<close> from the closure \<open>c\<close> of the
  render that started the timer.
\<close>

definition evaluateCode :: "'c env \<Rightarrow> 'c studio \<Rightarrow> 'c studio \<Rightarrow> 'c eval_result" where
  "evaluateCode env c s =
     (let s0 = s\<lparr>previewError := None\<rparr> in
      case try_evaluate env (code c) of
        Inr Component \<Rightarrow>
          \<lparr>er_state = s0\<lparr>previewComponent := Some Component\<rparr>, er_retry = None, er_uncaught = False\<rparr>
      | Inl err \<Rightarrow>
          (case errorMsg_of err of
             None \<Rightarrow> \<lparr>er_state = s0, er_retry = None, er_uncaught = True\<rparr>
           | Some errorMsg \<Rightarrow>
               if previewError c \<noteq> Some errorMsg then
                 \<lparr>er_state = s0\<lparr>previewError := Some errorMsg, previewComponent := None\<rparr>,
                  er_retry = (if \<not> isGenerating c then Some errorMsg else None),
                  er_uncaught = False\<rparr>
               else \<lparr>er_state = s0, er_retry = None, er_uncaught = False\<rparr>))"

section \<open>The generation loop: \<open>handleGenerate\<close>\<close>

text \<open>
  The JSON body of the request to \<^verbatim>\<open>/api/agent/widget/generate\<close>. A field that is a
  string or \<^verbatim>\<open>null\<close> in the body is an option, \<open>None\<close> being \<^verbatim>\<open>null\<close>.
\<close>

record generate_request =
  gr_prompt :: "string option"
  gr_history :: "message list"
  gr_error_log :: "string option"
  gr_current_code :: "string option"
  gr_data_source_schema :: "string option"
  gr_data_source :: "string option"
  gr_data_source_type :: "dataSourceType option"

text \<open>
  What \<open>handleGenerate\<close> holds across its \<^verbatim>\<open>await\<close>: the local \<^verbatim>\<open>newMessages\<close> and
  its argument \<^verbatim>\<open>autoRetryError\<close>.
\<close>

record pending =
  p_newMessages :: "message list"
  p_autoRetryError :: "string option"

definition auto_retry_text :: "string \<Rightarrow> string" where
  "auto_retry_text e = ''Auto-retrying due to compilation error: '' @ e"

definition fix_prompt :: string where
  "fix_prompt = ''Please fix the compilation error in the code.''"

text \<open>
  \<open>handleGenerate\<close> up to the call of \<^verbatim>\<open>fetch\<close>. It reads \<^verbatim>\<open>messages\<close>,
  \<^verbatim>\<open>prompt\<close>, \<^verbatim>\<open>previewError\<close>, \<^verbatim>\<open>code\<close> and the data source from its closure \<open>c\<close>;
  only the update \<^verbatim>\<open>setMessages(prev => ...)\<close> of the auto-retry branch reads the
  current state. The result is the new state and, unless the function returned at once,
  the request sent and the continuation waiting for the response.
\<close>

definition handleGenerate ::
  "'c studio \<Rightarrow> string option \<Rightarrow> 'c studio \<Rightarrow> 'c studio \<times> (generate_request \<times> pending) option"
where
  "handleGenerate c autoRetryError s =
     (if prompt c = [] \<and> \<not> truthy autoRetryError then (s, None)
      else
        (let newMessages =
               (if truthy autoRetryError
                then messages c @ [\<lparr>role = System, content = auto_retry_text (the autoRetryError)\<rparr>]
                else messages c @ [\<lparr>role = User, content = prompt c\<rparr>]);
             s1 =
               (if truthy autoRetryError
                then s\<lparr>messages := messages s
                        @ [\<lparr>role = System, content = auto_retry_text (the autoRetryError)\<rparr>]\<rparr>
                else s\<lparr>messages := newMessages, prompt := [], previewError := None\<rparr>);
             s2 = s1\<lparr>isGenerating := True\<rparr>;
             body =
               \<lparr>gr_prompt = Some (or_else (Some (prompt c)) fix_prompt),
                gr_history = filter (\<lambda>m. role m \<noteq> System) (messages c),
                gr_error_log = (if truthy autoRetryError then autoRetryError else previewError c),
                gr_current_code = Some (code c),
                gr_data_source_schema = dataSourceSchema c,
                gr_data_source = (if dataSourceType c \<noteq> DsNone then Some (dataSource c) else None),
                gr_data_source_type =
                  (if dataSourceType c \<noteq> DsNone then Some (dataSourceType c) else None)\<rparr>
         in (s2, Some (body, \<lparr>p_newMessages = newMessages, p_autoRetryError = autoRetryError\<rparr>))))"

text \<open>
  How the awaited request ends. \<open>Rejected e\<close>: \<^verbatim>\<open>fetch\<close> or \<^verbatim>\<open>resp.json()\<close> rejected with
  a value whose string conversion is \<open>e\<close> (no connection, a body that is not JSON).
  \<open>Response ok statusText data\<close>: a response with \<^verbatim>\<open>resp.ok\<close>, \<^verbatim>\<open>resp.statusText\<close> and
  the parsed body, of which \<^verbatim>\<open>code\<close>, \<^verbatim>\<open>explanation\<close> and \<^verbatim>\<open>detail\<close> are read.
\<close>

record response_data =
  rd_code :: "string option"
  rd_explanation :: "string option"
  rd_detail :: "string option"

datatype fetch_outcome = Rejected string | Response bool string response_data

text \<open>\<open>handleGenerate\<close> from the \<^verbatim>\<open>await\<close> on: the updates it makes when the request ends.\<close>

definition handleGenerate_resume :: "pending \<Rightarrow> fetch_outcome \<Rightarrow> 'c studio \<Rightarrow> 'c studio" where
  "handleGenerate_resume k outcome s =
     (case outcome of
        Rejected e \<Rightarrow>
          s\<lparr>messages := p_newMessages k @ [\<lparr>role = System, content = ''Network Error: '' @ e\<rparr>],
            isGenerating := False\<rparr>
      | Response ok statusText data \<Rightarrow>
          if \<not> ok then
            s\<lparr>messages := p_newMessages k
                 @ [\<lparr>role = System,
                     content = ''Server Error: '' @ or_else (rd_detail data) statusText\<rparr>],
              isGenerating := False\<rparr>
          else
            (let s1 = (if truthy (rd_code data) then s\<lparr>code := the (rd_code data)\<rparr> else s);
                 s2 =
                   (if \<not> truthy (p_autoRetryError k)
                    then s1\<lparr>messages := p_newMessages k
                           @ [\<lparr>role = Assistant,
                               content = or_else (rd_explanation data) ''Widget code generated.''\<rparr>]\<rparr>
                    else s1\<lparr>messages := p_newMessages k
                           @ [\<lparr>role = Assistant,
                               content = or_else (rd_explanation data)
                                 ''I've attempted to fix the compilation error.''\<rparr>]\<rparr>)
             in s2\<lparr>isGenerating := False\<rparr>))"

section \<open>The containment boundary: \<open>WidgetErrorBoundary\<close>\<close>

record boundary_state =
  hasError :: bool
  error :: "thrown option"

text \<open>The state set by the constructor.\<close>

definition boundary_initial :: boundary_state where
  "boundary_initial = \<lparr>hasError = False, error = None\<rparr>"

text \<open>
  The props of the boundary. A callback is modelled by the actions it performs; a prop that
  was not passed is \<open>None\<close>.
\<close>

record 'a boundary_props =
  onReset :: "'a list option"
  onError :: "(thrown \<Rightarrow> 'a list) option"

text \<open>
  React calls \<open>getDerivedStateFromError\<close> and then \<open>componentDidCatch\<close> on the nearest
  boundary when a descendant throws while rendering, on mount or on an update.
\<close>

definition getDerivedStateFromError :: "thrown \<Rightarrow> boundary_state" where
  "getDerivedStateFromError err = \<lparr>hasError = True, error = Some err\<rparr>"

definition componentDidCatch :: "'a boundary_props \<Rightarrow> thrown \<Rightarrow> 'a list" where
  "componentDidCatch props err = (case onError props of None \<Rightarrow> [] | Some f \<Rightarrow> f err)"

text \<open>
  What \<open>render\<close> returns: the children, or the fallback panel, whose only varying part is
  \<^verbatim>\<open>this.state.error?.message\<close> (\<open>None\<close> when that is \<^verbatim>\<open>undefined\<close>).
\<close>

datatype 'v rendered = Children 'v | Fallback "string option"

fun message_of :: "thrown option \<Rightarrow> string option" where
  "message_of (Some (ThrownError name message)) = Some message"
| "message_of _ = None"

definition render :: "boundary_state \<Rightarrow> 'v \<Rightarrow> 'v rendered" where
  "render st children = (if hasError st then Fallback (message_of (error st)) else Children children)"

text \<open>The click on "Try Again": the new state and the actions of \<open>onReset\<close>.\<close>

definition tryAgain :: "'a boundary_props \<Rightarrow> boundary_state \<times> 'a list" where
  "tryAgain props =
     (\<lparr>hasError = False, error = None\<rparr>, (case onReset props of None \<Rightarrow> [] | Some acts \<Rightarrow> acts))"

text \<open>
  The props that \<open>WidgetStudio\<close> passes in a render with state \<open>c\<close>: \<open>onReset\<close> sets the
  preview component to \<^verbatim>\<open>null\<close>; \<open>onError\<close> starts, unless \<open>c\<close> is generating, a one-second
  timer that calls \<^verbatim>\<open>handleGenerate(err.message || String(err))\<close>.
\<close>

datatype 'c action = SetPreviewComponent "'c component option" | SetTimeoutGenerate "'c studio" thrown

definition studio_props :: "'c studio \<Rightarrow> 'c action boundary_props" where
  "studio_props c =
     \<lparr>onReset = Some [SetPreviewComponent None],
      onError = Some (\<lambda>err. if \<not> isGenerating c then [SetTimeoutGenerate c err] else [])\<rparr>"

section \<open>The studio as a transition system\<close>

text \<open>
  The component with its pending work: the React state \<open>ui\<close>; the state of the mounted
  \<open>WidgetErrorBoundary\<close>, if one is mounted; the debounce timer of the effect on
  \<^verbatim>\<open>[code]\<close> (with the closure of the render that started it); the one-second timers that
  will call \<open>handleGenerate\<close>, each with its closure and the argument of the call (\<open>None\<close>
  when computing the argument throws, so that the call is never made); the requests in
  flight and every request sent so far; and whether an error has reached the root of the
  application, upon which React unmounts all of it.
\<close>

record 'c system =
  ui :: "'c studio"
  boundary :: "boundary_state option"
  evalTimer :: "'c studio option"
  retryTimers :: "('c studio \<times> string option) list"
  inflight :: "pending list"
  sent :: "generate_request list"
  crashed :: bool

datatype event =
    SetViewMode viewMode
  | EditCode string
  | TypePrompt string
  | PressEnter
  | ClickSend
  | EvalTimerFires
  | RetryTimerFires nat
  | FetchSettles nat fetch_outcome
  | RenderThrows thrown
  | ClickTryAgain

text \<open>
  The preview pane shows the boundary around the preview component only in the preview
  tab, when the preview error is falsy and the preview component is truthy.
\<close>

definition shows_boundary :: "'c studio \<Rightarrow> bool" where
  "shows_boundary s \<longleftrightarrow>
     viewMode s = Preview \<and> \<not> truthy (previewError s) \<and> truthy_component (previewComponent s)"

text \<open>A boundary renders its children unless it is in the failed state.\<close>

definition renders_children :: "boundary_state option \<Rightarrow> bool" where
  "renders_children b \<longleftrightarrow> (case b of None \<Rightarrow> False | Some st \<Rightarrow> \<not> hasError st)"

text \<open>
  After the updates of an event React renders again. A boundary that stays in the tree
  keeps its state, one that enters it starts in its initial state. The effect on
  \<^verbatim>\<open>[code]\<close> runs only when \<^verbatim>\<open>code\<close> changed: its cleanup clears the pending debounce
  timer and a new one is started, whose closure is the new render.

  The child of the boundary is \<^verbatim>\<open>React.createElement(previewComponent, ...)\<close>. When the
  boundary renders its children and the preview component is no valid element type, React
  raises "Element type is invalid" while it reconciles the children of the boundary, that
  is, in the boundary itself: a boundary does not catch its own errors, and no other
  boundary stands above the studio. The error reaches the root and the application is
  unmounted, which also clears the debounce timer.
\<close>

definition rerender :: "'c system \<Rightarrow> 'c studio \<Rightarrow> 'c system" where
  "rerender sys s' =
     (let b' =
            (if shows_boundary s'
             then (case boundary sys of None \<Rightarrow> Some boundary_initial | Some b \<Rightarrow> Some b)
             else None);
          sys1 = sys\<lparr>ui := s', boundary := b'\<rparr>;
          sys2 = (if code s' \<noteq> code (ui sys) then sys1\<lparr>evalTimer := Some s'\<rparr> else sys1)
      in if renders_children b' \<and> \<not> valid_element_type (previewComponent s')
         then sys2\<lparr>boundary := None, evalTimer := None, crashed := True\<rparr>
         else sys2)"

definition remove_nth :: "nat \<Rightarrow> 'a list \<Rightarrow> 'a list" where
  "remove_nth i xs = take i xs @ drop (Suc i) xs"

definition generate :: "'c studio \<Rightarrow> string option \<Rightarrow> 'c system \<Rightarrow> 'c system" where
  "generate c autoRetryError sys =
     (case handleGenerate c autoRetryError (ui sys) of
        (s', None) \<Rightarrow> rerender sys s'
      | (s', Some (body, k)) \<Rightarrow>
          rerender (sys\<lparr>inflight := inflight sys @ [k], sent := sent sys @ [body]\<rparr>) s')"

text \<open>The actions of the boundary's callbacks, carried out on the studio.\<close>

fun perform :: "'c action \<Rightarrow> 'c system \<Rightarrow> 'c system" where
  "perform (SetPreviewComponent v) sys = rerender sys ((ui sys)\<lparr>previewComponent := v\<rparr>)"
| "perform (SetTimeoutGenerate c err) sys =
     sys\<lparr>retryTimers := retryTimers sys @ [(c, errorMsg_of err)]\<rparr>"

text \<open>
  One event of the mounted studio. The handlers of the tabs, the text area, the send button, the editor and the
  boundary belong to the latest render, so their closure is the current state. The editor
  exists only in the code tab. The send button is disabled while generating or when the
  prompt is empty; the Enter key is not. \<open>RenderThrows\<close> is a mounted component that
  throws while it renders, which can only be while the boundary renders its children; the
  "Try Again" button exists only in the fallback.
\<close>

fun step :: "'c env \<Rightarrow> event \<Rightarrow> 'c system \<Rightarrow> 'c system" where
  "step env (SetViewMode v) sys = rerender sys ((ui sys)\<lparr>viewMode := v\<rparr>)"
| "step env (EditCode src) sys =
     (if viewMode (ui sys) = Code then rerender sys ((ui sys)\<lparr>code := src\<rparr>) else sys)"
| "step env (TypePrompt p) sys = rerender sys ((ui sys)\<lparr>prompt := p\<rparr>)"
| "step env PressEnter sys = generate (ui sys) None sys"
| "step env ClickSend sys =
     (if isGenerating (ui sys) \<or> prompt (ui sys) = [] then sys
      else generate (ui sys) None sys)"
| "step env EvalTimerFires sys =
     (case evalTimer sys of
        None \<Rightarrow> sys
      | Some c \<Rightarrow>
          (let r = evaluateCode env c (ui sys) in
           rerender
             (sys\<lparr>evalTimer := None,
                  retryTimers := retryTimers sys
                    @ (case er_retry r of None \<Rightarrow> [] | Some errorMsg \<Rightarrow> [(c, Some errorMsg)])\<rparr>)
             (er_state r)))"
| "step env (RetryTimerFires i) sys =
     (if i < length (retryTimers sys) then
        (case retryTimers sys ! i of
           (c, None) \<Rightarrow> sys\<lparr>retryTimers := remove_nth i (retryTimers sys)\<rparr>
         | (c, Some errorMsg) \<Rightarrow>
             generate c (Some errorMsg) (sys\<lparr>retryTimers := remove_nth i (retryTimers sys)\<rparr>))
      else sys)"
| "step env (FetchSettles i outcome) sys =
     (if i < length (inflight sys) then
        rerender (sys\<lparr>inflight := remove_nth i (inflight sys)\<rparr>)
          (handleGenerate_resume (inflight sys ! i) outcome (ui sys))
      else sys)"
| "step env (RenderThrows err) sys =
     (case boundary sys of
        None \<Rightarrow> sys
      | Some b \<Rightarrow>
          if hasError b then sys
          else fold perform (componentDidCatch (studio_props (ui sys)) err)
                 (sys\<lparr>boundary := Some (getDerivedStateFromError err)\<rparr>))"
| "step env ClickTryAgain sys =
     (case boundary sys of
        None \<Rightarrow> sys
      | Some b \<Rightarrow>
          if hasError b then
            (case tryAgain (studio_props (ui sys)) of
               (b', acts) \<Rightarrow> fold perform acts (sys\<lparr>boundary := Some b'\<rparr>))
          else sys)"

text \<open>
  One event after the application was unmounted. Nothing is on the screen, so only timers
  and requests are left: a timer still calls \<open>handleGenerate\<close>, which sends its request,
  but state updates of an unmounted component are dropped.
\<close>

fun step_unmounted :: "event \<Rightarrow> 'c system \<Rightarrow> 'c system" where
  "step_unmounted (RetryTimerFires i) sys =
     (if i < length (retryTimers sys) then
        (case retryTimers sys ! i of
           (c, None) \<Rightarrow> sys\<lparr>retryTimers := remove_nth i (retryTimers sys)\<rparr>
         | (c, Some errorMsg) \<Rightarrow>
             (case handleGenerate c (Some errorMsg) (ui sys) of
                (s', None) \<Rightarrow> sys\<lparr>retryTimers := remove_nth i (retryTimers sys)\<rparr>
              | (s', Some (body, k)) \<Rightarrow>
                  sys\<lparr>retryTimers := remove_nth i (retryTimers sys),
                      inflight := inflight sys @ [k], sent := sent sys @ [body]\<rparr>))
      else sys)"
| "step_unmounted (FetchSettles i outcome) sys =
     (if i < length (inflight sys) then sys\<lparr>inflight := remove_nth i (inflight sys)\<rparr> else sys)"
| "step_unmounted ev sys = sys"

fun run :: "'c env \<Rightarrow> event list \<Rightarrow> 'c system \<Rightarrow> 'c system" where
  "run env [] sys = sys"
| "run env (ev # evs) sys =
     run env evs (if crashed sys then step_unmounted ev sys else step env ev sys)"

text \<open>The state of the component when it mounts, with the first debounce timer started.\<close>

definition initial_code :: string where
  "initial_code =
     ''export default function MyWidget() {'' @ [CHR 0x0A]
     @ ''  return ('' @ [CHR 0x0A]
     @ ''    <div className=\"p-4 bg-white rounded-lg shadow h-full flex items-center justify-center\">''
     @ [CHR 0x0A]
     @ ''      <h3 className=\"text-xl font-bold text-slate-800\">Hello Widget</h3>'' @ [CHR 0x0A]
     @ ''    </div>'' @ [CHR 0x0A]
     @ ''  );'' @ [CHR 0x0A]
     @ ''}''"

definition initial_studio :: "'c studio" where
  "initial_studio =
     \<lparr>messages =
        [\<lparr>role = Assistant,
          content = ''Welcome to the Widget Studio! Briefly describe the widget you want to build.''\<rparr>],
      prompt = [],
      isGenerating = False,
      code = initial_code,
      viewMode = Preview,
      previewComponent = None,
      previewError = None,
      widgetName = ''New Custom Widget'',
      widgetDescription = [],
      widgetCategory = ''Custom'',
      widgetDomain = ''General'',
      isExecutable = False,
      dataSourceType = DsNone,
      dataSource = [],
      dataSourceSchema = None,
      defaultW = 6,
      defaultH = 6,
      editingId = None\<rparr>"

definition initial_system :: "'c system" where
  "initial_system =
     \<lparr>ui = initial_studio, boundary = None, evalTimer = Some initial_studio, retryTimers = [],
      inflight = [], sent = [], crashed = False\<rparr>"

section \<open>Publishing: \<open>handlePublish\<close>\<close>

datatype http_method = POST | PUT

record publish_body =
  pb_name :: string
  pb_description :: string
  pb_category :: string
  pb_domain :: string
  pb_tsx_code :: string
  pb_isExecutable :: bool
  pb_data_source_type :: dataSourceType
  pb_data_source :: string
  pb_default_w :: int
  pb_default_h :: int

record publish_request =
  pr_url :: string
  pr_method :: http_method
  pr_body :: publish_body

text \<open>\<open>handlePublish\<close> up to the call of \<^verbatim>\<open>fetch\<close>: the request it sends.\<close>

definition handlePublish_request :: "'c studio \<Rightarrow> publish_request" where
  "handlePublish_request c =
     (let isEditing = truthy (editingId c) in
      \<lparr>pr_url =
         (if isEditing then ''/api/widgets/custom/'' @ the (editingId c) else ''/api/widgets/custom''),
       pr_method = (if isEditing then PUT else POST),
       pr_body =
         \<lparr>pb_name = widgetName c,
          pb_description = widgetDescription c,
          pb_category = widgetCategory c,
          pb_domain = widgetDomain c,
          pb_tsx_code = code c,
          pb_isExecutable = isExecutable c,
          pb_data_source_type = dataSourceType c,
          pb_data_source = dataSource c,
          pb_default_w = defaultW c,
          pb_default_h = defaultH c\<rparr>\<rparr>)"

text \<open>
  How the request ends. \<open>PublishRejected e\<close>: \<^verbatim>\<open>fetch\<close> rejected with a value whose string
  conversion is \<open>e\<close>. \<open>PublishResponse ok statusText detail\<close>: a response with \<^verbatim>\<open>res.ok\<close>,
  \<^verbatim>\<open>res.statusText\<close> and the \<^verbatim>\<open>detail\<close> of its JSON body (\<open>None\<close> when there is none
  or the body is not JSON).
\<close>

datatype publish_outcome = PublishRejected string | PublishResponse bool string "string option"

datatype notice = Alert string | OnClose

text \<open>
  \<open>handlePublish\<close> from the \<^verbatim>\<open>await\<close> on. \<open>loadCustomWidgets\<close> is imported from the
  widget registry module but is not among the sources: it is a parameter, which maps the
  registry (of any type \<open>'r\<close>) to the reloaded registry and, when its promise rejects, the
  string conversion of the reason.
\<close>

definition handlePublish_settle ::
  "('r \<Rightarrow> 'r \<times> string option) \<Rightarrow> 'c studio \<Rightarrow> publish_outcome \<Rightarrow> 'r \<Rightarrow> 'r \<times> notice list"
where
  "handlePublish_settle loadCustomWidgets c outcome registry =
     (let isEditing = truthy (editingId c) in
      case outcome of
        PublishRejected e \<Rightarrow> (registry, [Alert (''Error: '' @ e)])
      | PublishResponse ok statusText detail \<Rightarrow>
          if ok then
            (case loadCustomWidgets registry of
               (registry', Some e) \<Rightarrow> (registry', [Alert (''Error: '' @ e)])
             | (registry', None) \<Rightarrow>
                 (registry',
                  [Alert (if isEditing
                          then [CHR 0x22] @ widgetName c @ [CHR 0x22]
                               @ '' updated! Changes are live in the Widget Library.''
                          else [CHR 0x22] @ widgetName c @ [CHR 0x22]
                               @ '' published! Open the Widget Library (press W) to find it.'')]
                  @ (if isEditing then [OnClose] else [])))
          else
            (registry,
             [Alert (''Failed to '' @ (if isEditing then ''update'' else ''publish'')
                     @ '' widget: '' @ or_else detail statusText)]))"

section \<open>The widget registry\<close>

datatype configurationMode = CmNone | ConfigAllowed | ConfigRequired

datatype fieldType = FtText | FtNumber | FtSelect | FtTextarea

record ConfigField =
  cf_key :: string
  cf_label :: string
  cf_type :: fieldType
  cf_required :: "bool option"
  cf_placeholder :: "string option"
  cf_options :: "(string \<times> string) list option"
  cf_defaultValue :: "string option"
  cf_helpText :: "string option"

text \<open>A widget definition; \<open>'w\<close> is the type of React components.\<close>

record 'w WidgetDefinition =
  wd_id :: string
  wd_name :: string
  wd_component :: 'w
  wd_defaultW :: int
  wd_defaultH :: int
  wd_description :: "string option"
  wd_category :: "string option"
  wd_domain :: "string option"
  wd_isCertified :: "bool option"
  wd_configurationMode :: "configurationMode option"
  wd_configSchema :: "ConfigField list option"
  wd_accessControl :: "bool option option"
  wd_isExecutable :: "bool option"

text \<open>
  \<open>widgetRegistry\<close> is a JavaScript object, created as \<^verbatim>\<open>{}\<close> and used as a dictionary
  from ids to definitions. Its own properties are an association list in the order
  \<^verbatim>\<open>Object.values\<close> lists them: assigning an existing key replaces the value in place, a
  new key goes to the end (keys that are array indices, which JavaScript lists first, are
  not told apart). The key \<^verbatim>\<open>__proto__\<close> is no property: assigning an object to it
  replaces the prototype of the registry. \<open>proto\<close> is that prototype when a definition has
  taken the place of \<^verbatim>\<open>Object.prototype\<close>.
\<close>

record 'w widgetRegistry =
  own :: "(string \<times> 'w WidgetDefinition) list"
  proto :: "'w WidgetDefinition option"

definition widgetRegistry_initial :: "'w widgetRegistry" where
  "widgetRegistry_initial = \<lparr>own = [], proto = None\<rparr>"

fun assign :: "string \<Rightarrow> 'v \<Rightarrow> (string \<times> 'v) list \<Rightarrow> (string \<times> 'v) list" where
  "assign k v [] = [(k, v)]"
| "assign k v ((k', v') # kvs) = (if k' = k then (k, v) # kvs else (k', v') # assign k v kvs)"

text \<open>\<^verbatim>\<open>widgetRegistry[def.id] = def\<close>.\<close>

definition registerWidget :: "'w WidgetDefinition \<Rightarrow> 'w widgetRegistry \<Rightarrow> 'w widgetRegistry" where
  "registerWidget def registry =
     (if wd_id def = ''__proto__'' then registry\<lparr>proto := Some def\<rparr>
      else registry\<lparr>own := assign (wd_id def) def (own registry)\<rparr>)"

text \<open>\<^verbatim>\<open>Object.values(widgetRegistry)\<close>: the values of the own properties.\<close>

definition getAvailableWidgets :: "'w widgetRegistry \<Rightarrow> 'w WidgetDefinition list" where
  "getAvailableWidgets registry = map snd (own registry)"

text \<open>
  The definition that \<^verbatim>\<open>widgetRegistry[k]\<close> reads: an own property, or for \<^verbatim>\<open>__proto__\<close>
  the prototype; \<open>None\<close> when what is read is no definition (\<^verbatim>\<open>undefined\<close>, or something
  inherited from the prototype).
\<close>

definition lookup :: "'w widgetRegistry \<Rightarrow> string \<Rightarrow> 'w WidgetDefinition option" where
  "lookup registry k = (if k = ''__proto__'' then proto registry else map_of (own registry) k)"

text \<open>
  A registry in which every own entry is stored under its own id, once. The initial registry
  is, and \<open>registerWidget\<close> keeps it so (\<open>well_keyed_registerWidget\<close> below).
\<close>

definition well_keyed :: "'w widgetRegistry \<Rightarrow> bool" where
  "well_keyed registry \<longleftrightarrow>
     distinct (map fst (own registry)) \<and> list_all (\<lambda>(k, def). wd_id def = k) (own registry)"

section \<open>Concrete browsers, sources and widgets\<close>

text \<open>Browsers: without Babel; with a Babel that accepts every source; with a Babel that
  rejects every source, its message quoting the first line of the source.\<close>

definition create_unit :: "string \<Rightarrow> thrown + unit returned" where
  "create_unit src = Inr (IsComponent ())"

text \<open>A browser in which the source \<^verbatim>\<open>export default 1;\<close> evaluates to the number.\<close>

definition create_by_text :: "string \<Rightarrow> thrown + unit returned" where
  "create_by_text src = (if src = ''return 1;'' then Inr NotComponent else Inr (IsComponent ()))"

definition transform_identity :: "string \<Rightarrow> (string \<times> string) + string" where
  "transform_identity src = Inr src"

definition first_line :: "string \<Rightarrow> string" where
  "first_line src = takeWhile (\<lambda>ch. ch \<noteq> CHR 0x0A) src"

definition transform_first_line :: "string \<Rightarrow> (string \<times> string) + string" where
  "transform_first_line src =
     Inl (''SyntaxError'', ''widget.tsx: Unexpected token (1:0) in '' @ first_line src)"

definition env_no_babel :: "unit env" where
  "env_no_babel = \<lparr>window_Babel = None, createComponent = create_unit\<rparr>"

definition env_ok :: "unit env" where
  "env_ok = \<lparr>window_Babel = Some transform_identity, createComponent = create_unit\<rparr>"

definition env_export_1 :: "unit env" where
  "env_export_1 = \<lparr>window_Babel = Some transform_identity, createComponent = create_by_text\<rparr>"

definition env_syntax_error :: "unit env" where
  "env_syntax_error = \<lparr>window_Babel = Some transform_first_line, createComponent = create_unit\<rparr>"

text \<open>Two sources with the same first line.\<close>

definition brace_a :: string where
  "brace_a = ''}'' @ [CHR 0x0A] @ ''// a''"

definition brace_b :: string where
  "brace_b = ''}'' @ [CHR 0x0A] @ ''// b''"

definition no_data :: response_data where
  "no_data = \<lparr>rd_code = None, rd_explanation = None, rd_detail = None\<rparr>"

definition code_brace_b :: response_data where
  "code_brace_b = \<lparr>rd_code = Some brace_b, rd_explanation = None, rd_detail = None\<rparr>"



definition empty_id_widget :: "unit WidgetDefinition" where
  "empty_id_widget =
     \<lparr>wd_id = [], wd_name = ''Untitled'', wd_component = (), wd_defaultW = 6, wd_defaultH = 6,
      wd_description = None, wd_category = None, wd_domain = None, wd_isCertified = None,
      wd_configurationMode = None, wd_configSchema = None, wd_accessControl = None,
      wd_isExecutable = None\<rparr>"





section \<open>Basic facts\<close>

lemma trim_all_space: "\<forall>ch\<in>set src. is_js_space ch \<Longrightarrow> trim src = []"
proof -
  assume "\<forall>ch\<in>set src. is_js_space ch"
  then have d: "dropWhile is_js_space src = []" by simp
  show ?thesis unfolding trim_def d by simp
qed

lemma trim_Nil: "trim [] = []"
  by (simp add: trim_def)

lemma try_evaluate_compile_error:
  assumes "window_Babel env = Some transform" and "trim src \<noteq> []"
    and "transform src = Inl (name, message)"
  shows "try_evaluate env src = Inl (ThrownError name message)"
proof -
  from assms(2) have "src \<noteq> []" using trim_Nil by auto
  with assms show ?thesis by (simp add: try_evaluate_def)
qed

text \<open>What \<open>evaluateCode\<close> does when compiling the source throws an error with text \<open>m\<close>.\<close>

lemma evaluateCode_on_compile_error:
  assumes "window_Babel env = Some transform" and "trim (code c) \<noteq> []"
    and "transform (code c) = Inl (name, message)"
    and m: "errorMsg_of (ThrownError name message) = Some m"
  shows "evaluateCode env c s =
      (if previewError c \<noteq> Some m then
         \<lparr>er_state = s\<lparr>previewError := Some m, previewComponent := None\<rparr>,
          er_retry = (if \<not> isGenerating c then Some m else None), er_uncaught = False\<rparr>
       else \<lparr>er_state = s\<lparr>previewError := None\<rparr>, er_retry = None, er_uncaught = False\<rparr>)"
proof -
  have t: "try_evaluate env (code c) = Inl (ThrownError name message)"
    using assms(1-3) by (rule try_evaluate_compile_error)
  show ?thesis
    by (simp add: evaluateCode_def Let_def t m del: errorMsg_of.simps)
qed

lemma evaluateCode_keeps_code: "code (er_state (evaluateCode env c s)) = code s"
  by (simp add: evaluateCode_def Let_def split: sum.splits option.splits)



lemmas trace_simps = rerender_def shows_boundary_def renders_children_def boundary_initial_def
  generate_def handleGenerate_def handleGenerate_resume_def evaluateCode_def try_evaluate_def
  remove_nth_def truthy_def or_else_def initial_system_def initial_studio_def
  env_syntax_error_def env_ok_def env_export_1_def transform_first_line_def
  transform_identity_def create_unit_def create_by_text_def first_line_def trim_def
  is_js_space_def auto_retry_text_def fix_prompt_def Let_def

section \<open>Compile errors and the blank source\<close>

text \<open>What holds of a compile error in every case: no exception leaves \<open>evaluateCode\<close>.\<close>

lemma compile_error_is_caught:
  assumes "window_Babel env = Some transform" and "trim (code c) \<noteq> []"
    and "transform (code c) = Inl (name, message)"
  shows "\<not> er_uncaught (evaluateCode env c s)"
proof -
  obtain m where m: "errorMsg_of (ThrownError name message) = Some m" by simp
  show ?thesis
    by (simp add: evaluateCode_on_compile_error [OF assms m] del: errorMsg_of.simps)
qed

text \<open>
  Claim C1, at an input where the code breaks it. A source typed in the editor fails to
  compile; the automatic correction returns \<open>brace_b\<close>, which fails to compile with the
  same message. \<open>evaluateCode\<close> sets the preview error to \<^verbatim>\<open>null\<close> at the start of its
  \<^verbatim>\<open>try\<close> block, and the guard \<^verbatim>\<open>previewError !== errorMsg\<close>, meant to prevent a second
  retry, also skips recording the error. The source that does not compile ends with no
  preview error and no preview component, and nothing is pending that would change this.
\<close>

theorem repeated_compile_error_is_dropped:
  "transform_first_line brace_b = Inl (''SyntaxError'', ''widget.tsx: Unexpected token (1:0) in }'')
   \<and> code (ui (run env_syntax_error
        [SetViewMode Code, EditCode brace_a, EvalTimerFires, RetryTimerFires 0,
         FetchSettles 0 (Response True ''OK'' code_brace_b), EvalTimerFires] initial_system))
       = brace_b
   \<and> previewError (ui (run env_syntax_error
        [SetViewMode Code, EditCode brace_a, EvalTimerFires, RetryTimerFires 0,
         FetchSettles 0 (Response True ''OK'' code_brace_b), EvalTimerFires] initial_system))
       = None
   \<and> previewComponent (ui (run env_syntax_error
        [SetViewMode Code, EditCode brace_a, EvalTimerFires, RetryTimerFires 0,
         FetchSettles 0 (Response True ''OK'' code_brace_b), EvalTimerFires] initial_system))
       = None
   \<and> evalTimer (run env_syntax_error
        [SetViewMode Code, EditCode brace_a, EvalTimerFires, RetryTimerFires 0,
         FetchSettles 0 (Response True ''OK'' code_brace_b), EvalTimerFires] initial_system)
       = None
   \<and> retryTimers (run env_syntax_error
        [SetViewMode Code, EditCode brace_a, EvalTimerFires, RetryTimerFires 0,
         FetchSettles 0 (Response True ''OK'' code_brace_b), EvalTimerFires] initial_system)
       = []
   \<and> inflight (run env_syntax_error
        [SetViewMode Code, EditCode brace_a, EvalTimerFires, RetryTimerFires 0,
         FetchSettles 0 (Response True ''OK'' code_brace_b), EvalTimerFires] initial_system)
       = []"
  by (simp add: trace_simps brace_a_def brace_b_def code_brace_b_def initial_code_def)

text \<open>
  Claim C10, as amended. When the Babel compiler is loaded, a source that is empty or
  consists only of white space gives the built-in placeholder as preview component, no
  preview error and no automatic correction.
\<close>

theorem evaluateCode_blank:
  assumes "window_Babel env = Some transform" and "\<forall>ch\<in>set (code c). is_js_space ch"
  shows "evaluateCode env c s =
           \<lparr>er_state = s\<lparr>previewError := None, previewComponent := Some Placeholder\<rparr>,
            er_retry = None, er_uncaught = False\<rparr>"
  using assms by (simp add: evaluateCode_def try_evaluate_def trim_all_space)

theorem evaluateCode_blank_witness:
  "window_Babel env_ok = Some transform_identity
   \<and> list_all is_js_space (code (initial_studio\<lparr>code := '' ''\<rparr> :: unit studio))
   \<and> evaluateCode env_ok (initial_studio\<lparr>code := '' ''\<rparr>) initial_studio =
       \<lparr>er_state = initial_studio\<lparr>previewError := None, previewComponent := Some Placeholder\<rparr>,
        er_retry = None, er_uncaught = False\<rparr>"
proof -
  have a: "window_Babel env_ok = Some transform_identity"
    by (simp add: env_ok_def)
  have b: "\<forall>ch\<in>set (code (initial_studio\<lparr>code := '' ''\<rparr> :: unit studio)). is_js_space ch"
    by (simp add: is_js_space_def)
  from evaluateCode_blank [OF a b, of initial_studio] a b show ?thesis
    by (simp add: list_all_iff)
qed

text \<open>
  Claim C10 fails as stated: the check for Babel comes before the check for a blank source,
  so without Babel the empty source records an error and schedules an automatic correction.
\<close>

theorem evaluateCode_blank_counterexample:
  "previewError (er_state (evaluateCode env_no_babel (initial_studio\<lparr>code := []\<rparr>)
        (initial_studio\<lparr>code := []\<rparr>))) = Some babel_missing
   \<and> previewComponent (er_state (evaluateCode env_no_babel (initial_studio\<lparr>code := []\<rparr>)
        (initial_studio\<lparr>code := []\<rparr>))) = None
   \<and> er_retry (evaluateCode env_no_babel (initial_studio\<lparr>code := []\<rparr>)
        (initial_studio\<lparr>code := []\<rparr>)) = Some babel_missing"
  by (simp add: evaluateCode_def try_evaluate_def env_no_babel_def initial_studio_def
      babel_missing_def)

section \<open>The containment boundary\<close>

text \<open>
  What holds of a mounted component that throws while it renders, on mount or on a later
  update: the boundary's state becomes the failed one, holding the thrown value; \<open>render\<close>
  then returns the fallback in place of the children; \<open>componentDidCatch\<close> passes the
  thrown value to \<open>onError\<close>, which in the studio starts the timer of an automatic
  correction unless the render that supplied it was generating.
\<close>

lemma boundary_catches_render_error:
  "getDerivedStateFromError err = \<lparr>hasError = True, error = Some err\<rparr>
   \<and> render (getDerivedStateFromError err) children = Fallback (message_of (Some err))
   \<and> componentDidCatch (props\<lparr>onError := Some f\<rparr>) err = f err
   \<and> componentDidCatch (studio_props c) err
       = (if isGenerating c then [] else [SetTimeoutGenerate c err])
   \<and> (boundary sys = Some b \<and> \<not> hasError b \<longrightarrow>
        step env (RenderThrows err) sys
          = sys\<lparr>boundary := Some (getDerivedStateFromError err),
                retryTimers := retryTimers sys
                  @ (if isGenerating (ui sys) then [] else [(ui sys, errorMsg_of err)])\<rparr>)"
  by (simp add: getDerivedStateFromError_def render_def componentDidCatch_def studio_props_def)


section \<open>Stale results\<close>




section \<open>The generation loop\<close>

text \<open>
  Claim C8, as amended. A submitted prompt appends a user turn, empties the prompt, clears
  the preview error and sends the prompt, the turns before it that are not system turns,
  the current source and the current preview error. An error-triggered correction appends a
  system turn naming the error and sends, as prompt, the text in the prompt field or else a
  fixed instruction, with the non-system turns, the source and the error of its closure.
  Neither request has a \<^verbatim>\<open>null\<close> prompt or a \<^verbatim>\<open>null\<close> source.
\<close>

theorem generation_requests:
  "(prompt s \<noteq> [] \<longrightarrow>
      handleGenerate s None s =
        (s\<lparr>messages := messages s @ [\<lparr>role = User, content = prompt s\<rparr>], prompt := [],
           previewError := None, isGenerating := True\<rparr>,
         Some (\<lparr>gr_prompt = Some (prompt s),
                gr_history = filter (\<lambda>m. role m \<noteq> System) (messages s),
                gr_error_log = previewError s,
                gr_current_code = Some (code s),
                gr_data_source_schema = dataSourceSchema s,
                gr_data_source = (if dataSourceType s \<noteq> DsNone then Some (dataSource s) else None),
                gr_data_source_type =
                  (if dataSourceType s \<noteq> DsNone then Some (dataSourceType s) else None)\<rparr>,
               \<lparr>p_newMessages = messages s @ [\<lparr>role = User, content = prompt s\<rparr>],
                p_autoRetryError = None\<rparr>)))
   \<and> (e \<noteq> [] \<longrightarrow>
      handleGenerate c (Some e) s' =
        (s'\<lparr>messages := messages s' @ [\<lparr>role = System, content = auto_retry_text e\<rparr>],
            isGenerating := True\<rparr>,
         Some (\<lparr>gr_prompt = Some (if prompt c = [] then fix_prompt else prompt c),
                gr_history = filter (\<lambda>m. role m \<noteq> System) (messages c),
                gr_error_log = Some e,
                gr_current_code = Some (code c),
                gr_data_source_schema = dataSourceSchema c,
                gr_data_source = (if dataSourceType c \<noteq> DsNone then Some (dataSource c) else None),
                gr_data_source_type =
                  (if dataSourceType c \<noteq> DsNone then Some (dataSourceType c) else None)\<rparr>,
               \<lparr>p_newMessages = messages c @ [\<lparr>role = System, content = auto_retry_text e\<rparr>],
                p_autoRetryError = Some e\<rparr>)))"
  by (simp add: handleGenerate_def truthy_def or_else_def Let_def)

theorem generation_requests_witness:
  "prompt (initial_studio\<lparr>prompt := ''p''\<rparr> :: unit studio) \<noteq> []
   \<and> ''boom'' \<noteq> []
   \<and> fst (handleGenerate (initial_studio\<lparr>prompt := ''p''\<rparr> :: unit studio) None
            (initial_studio\<lparr>prompt := ''p''\<rparr>))
       = initial_studio\<lparr>messages := messages (initial_studio :: unit studio)
                            @ [\<lparr>role = User, content = ''p''\<rparr>],
                         isGenerating := True\<rparr>
   \<and> fst (handleGenerate (initial_studio :: unit studio) (Some ''boom'') initial_studio)
       = initial_studio\<lparr>messages := messages (initial_studio :: unit studio)
                            @ [\<lparr>role = System,
                                content = ''Auto-retrying due to compilation error: boom''\<rparr>],
                         isGenerating := True\<rparr>"
  using generation_requests [where s = "initial_studio\<lparr>prompt := ''p''\<rparr> :: unit studio"
      and e = "''boom''" and c = "initial_studio :: unit studio" and s' = "initial_studio"]
  by (simp add: initial_studio_def auto_retry_text_def)

text \<open>
  Claim C8 fails as stated: the request of a submitted prompt carries the current source,
  not \<^verbatim>\<open>null\<close>, and the request of an error-triggered correction carries a prompt, not
  \<^verbatim>\<open>null\<close>.
\<close>

theorem generation_requests_counterexample:
  "map gr_current_code (sent (run env_ok [TypePrompt ''p'', PressEnter] initial_system))
     = [Some initial_code]
   \<and> map gr_prompt (sent (run env_syntax_error
        [SetViewMode Code, EditCode ''}'', EvalTimerFires, RetryTimerFires 0] initial_system))
     = [Some ''Please fix the compilation error in the code.'']"
  by (simp add: trace_simps initial_code_def)




text \<open>
  Claim C4, at an input where the code breaks it. Two sources typed one after the other
  fail to compile with different errors. Each evaluation sees, in its closure, that nothing
  is generating and starts a timer; when the second timer fires the correction started by
  the first is still in flight, and \<open>handleGenerate\<close> does not look at the flag: two
  automatic corrections are in flight together.
\<close>

theorem two_corrections_in_flight:
  "isGenerating (ui (run env_syntax_error
       [SetViewMode Code, EditCode ''}'', EvalTimerFires, EditCode '')'', EvalTimerFires, RetryTimerFires 0]
       initial_system))
   \<and> map p_autoRetryError (inflight (run env_syntax_error
       [SetViewMode Code, EditCode ''}'', EvalTimerFires, EditCode '')'', EvalTimerFires,
        RetryTimerFires 0, RetryTimerFires 0] initial_system))
     = [Some ''widget.tsx: Unexpected token (1:0) in }'',
        Some ''widget.tsx: Unexpected token (1:0) in )'']"
  by (simp add: trace_simps initial_code_def)

text \<open>
  Claim C7, at an input where the code breaks it. A second prompt is submitted with the
  Enter key while the request of the first is in flight. When the first request fails, the
  conversation is set to the turns that its call had seen, plus the error: the user turn
  of the second prompt is lost.
\<close>

theorem overlapping_failure_drops_turn:
  "messages (ui (run env_ok
        [TypePrompt ''a'', PressEnter, TypePrompt ''b'', PressEnter] initial_system))
     = [\<lparr>role = Assistant,
         content = ''Welcome to the Widget Studio! Briefly describe the widget you want to build.''\<rparr>,
        \<lparr>role = User, content = ''a''\<rparr>, \<lparr>role = User, content = ''b''\<rparr>]
   \<and> messages (ui (run env_ok
        [TypePrompt ''a'', PressEnter, TypePrompt ''b'', PressEnter,
         FetchSettles 0 (Response False ''Internal Server Error'' no_data)] initial_system))
     = [\<lparr>role = Assistant,
         content = ''Welcome to the Widget Studio! Briefly describe the widget you want to build.''\<rparr>,
        \<lparr>role = User, content = ''a''\<rparr>,
        \<lparr>role = System, content = ''Server Error: Internal Server Error''\<rparr>]"
  by (simp add: trace_simps no_data_def)

text \<open>
  What does hold when a request fails: the source, the preview error and the timers are
  left as they are, and the generating flag is cleared.
\<close>

lemma generation_failure_keeps_source:
  "outcome = Rejected e \<or> outcome = Response False statusText data \<Longrightarrow>
     code (handleGenerate_resume k outcome s) = code s
     \<and> previewError (handleGenerate_resume k outcome s) = previewError s
     \<and> \<not> isGenerating (handleGenerate_resume k outcome s)"
  by (auto simp: handleGenerate_resume_def)

section \<open>Publishing and the registry\<close>

lemma map_of_assign: "map_of (assign k v kvs) k = Some v"
  by (induction kvs) auto


lemma lookup_registerWidget: "lookup (registerWidget def registry) (wd_id def) = Some def"
  by (simp add: registerWidget_def lookup_def map_of_assign)


text \<open>
  Claim C5, as amended. Nothing is validated on the way to the registry: \<open>registerWidget\<close>
  stores every definition under its id, also an empty one, and \<open>handlePublish\<close> sends the
  current source as it is, whether it compiles or not. A publish is refused only by the
  persistence service: on a response that is not ok, or a failed request, the registry is
  left untouched and an alert with the reason is shown.
\<close>

theorem publish_is_not_validated:
  "lookup (registerWidget def registry) (wd_id def) = Some def
   \<and> pb_tsx_code (pr_body (handlePublish_request c)) = code c
   \<and> handlePublish_settle load c (PublishResponse False statusText detail) reg
       = (reg, [Alert (''Failed to '' @ (if truthy (editingId c) then ''update'' else ''publish'')
                       @ '' widget: '' @ or_else detail statusText)])
   \<and> handlePublish_settle load c (PublishRejected e) reg = (reg, [Alert (''Error: '' @ e)])"
  by (simp add: lookup_registerWidget handlePublish_request_def handlePublish_settle_def Let_def)

text \<open>
  Claim C5 fails as stated: a definition with an empty id is registered and listed, and a
  source that does not compile is sent for publishing.
\<close>

theorem publish_counterexample:
  "wd_id empty_id_widget = []
   \<and> getAvailableWidgets (registerWidget empty_id_widget widgetRegistry_initial)
       = [empty_id_widget]
   \<and> previewError (ui (run env_syntax_error
         [SetViewMode Code, EditCode ''}'', EvalTimerFires] initial_system))
       = Some ''widget.tsx: Unexpected token (1:0) in }''
   \<and> pb_tsx_code (pr_body (handlePublish_request (ui (run env_syntax_error
         [SetViewMode Code, EditCode ''}'', EvalTimerFires] initial_system)))) = ''}''"
  by (simp add: trace_simps empty_id_widget_def registerWidget_def getAvailableWidgets_def
      widgetRegistry_initial_def handlePublish_request_def initial_code_def)

lemma assign_keys: "fst ` set (assign k v kvs) = insert k (fst ` set kvs)"
proof (induction kvs)
  case Nil
  show ?case by simp
next
  case (Cons p kvs)
  obtain k' v' where p: "p = (k', v')" by (cases p)
  show ?case using Cons.IH by (cases "k' = k") (auto simp: p)
qed

lemma distinct_assign: "distinct (map fst kvs) \<Longrightarrow> distinct (map fst (assign k v kvs))"
proof (induction kvs)
  case Nil
  then show ?case by simp
next
  case (Cons p kvs)
  obtain k' v' where p: "p = (k', v')" by (cases p)
  have "k' \<notin> set (map fst (assign k v kvs))" if "k' \<noteq> k"
    using Cons.prems that by (simp add: assign_keys p)
  with Cons show ?case by (auto simp: p)
qed


lemma well_keyed_registerWidget:
  "well_keyed registry \<Longrightarrow> well_keyed (registerWidget def registry)"
proof -
  assume wk: "well_keyed registry"
  have "list_all (\<lambda>(k, d). wd_id d = k) (assign (wd_id def) def kvs)"
    if "list_all (\<lambda>(k, d). wd_id d = k) kvs" for kvs :: "(string \<times> 'a WidgetDefinition) list"
    using that by (induction kvs) auto
  with wk show ?thesis
    by (simp add: well_keyed_def registerWidget_def distinct_assign)
qed

text \<open>Every registry built from the initial one by registrations is of this kind.\<close>

lemma well_keyed_fold:
  "well_keyed registry \<Longrightarrow> well_keyed (fold registerWidget defs registry)"
  by (induction defs arbitrary: registry) (simp_all add: well_keyed_registerWidget)






end
